theory Spec2Isabelle
  imports Complex_Main "HOL-Library.Sublist"
begin

section \<open>Conventions of the embedding\<close>

text \<open>
  The pipeline works on JSON-shaped dictionaries. A dictionary entry is in one of three
  states, and the code tells them apart (\<^verbatim>\<open>d.get(k, default)\<close> gives the default
  only when the key is absent, \<^verbatim>\<open>k in d\<close> is true for a stored \<^verbatim>\<open>None\<close>):
  \<open>Missing\<close> (no such key), \<open>PyNone\<close> (the key holds \<^verbatim>\<open>None\<close>) and \<open>Has v\<close>.

  Text is a \<open>string\<close>, a list of 8-bit characters read as the code points below 256.
  Keyword lists and lexicons that the source writes as constants are parameters of the
  functions that read them, so every theorem holds for every configuration.

  Python floats are modelled by exact rationals: \<^verbatim>\<open>0.4\<close> is \<open>4/10\<close>, division is exact,
  and \<^verbatim>\<open>round(x, n)\<close> rounds the exact value half to even. Binary rounding error of the
  floating-point operations is not modelled.

  Exceptions are values: a function that can raise returns \<open>error + 'a\<close>.
\<close>

datatype 'a pyfield = Missing | PyNone | Has 'a

datatype error = AttributeError | TypeError | ColumnNotFoundError

section \<open>Python string primitives\<close>

definition upper_chars :: string where
  "upper_chars = ''ABCDEFGHIJKLMNOPQRSTUVWXYZ'' @
     [CHR 0xC0, CHR 0xC1, CHR 0xC2, CHR 0xC3, CHR 0xC4, CHR 0xC5, CHR 0xC6, CHR 0xC7,
      CHR 0xC8, CHR 0xC9, CHR 0xCA, CHR 0xCB, CHR 0xCC, CHR 0xCD, CHR 0xCE, CHR 0xCF,
      CHR 0xD0, CHR 0xD1, CHR 0xD2, CHR 0xD3, CHR 0xD4, CHR 0xD5, CHR 0xD6,
      CHR 0xD8, CHR 0xD9, CHR 0xDA, CHR 0xDB, CHR 0xDC, CHR 0xDD, CHR 0xDE]"

definition lower_chars :: string where
  "lower_chars = ''abcdefghijklmnopqrstuvwxyz'' @
     [CHR 0xE0, CHR 0xE1, CHR 0xE2, CHR 0xE3, CHR 0xE4, CHR 0xE5, CHR 0xE6, CHR 0xE7,
      CHR 0xE8, CHR 0xE9, CHR 0xEA, CHR 0xEB, CHR 0xEC, CHR 0xED, CHR 0xEE, CHR 0xEF,
      CHR 0xF0, CHR 0xF1, CHR 0xF2, CHR 0xF3, CHR 0xF4, CHR 0xF5, CHR 0xF6,
      CHR 0xF8, CHR 0xF9, CHR 0xFA, CHR 0xFB, CHR 0xFC, CHR 0xFD, CHR 0xFE]"

text \<open>\<^verbatim>\<open>str.lower()\<close> on the code points below 256: the ASCII capitals and the Latin-1
  capitals \<open>0xC0..0xDE\<close> (without the multiplication sign \<open>0xD7\<close>) move up by 32.\<close>

definition py_lower_char :: "char \<Rightarrow> char" where
  "py_lower_char c =
     (case map_of (zip upper_chars lower_chars) c of Some d \<Rightarrow> d | None \<Rightarrow> c)"

definition lower :: "string \<Rightarrow> string" where
  "lower s = map py_lower_char s"

text \<open>\<^verbatim>\<open>k in t\<close> on strings: \<open>k\<close> occurs in \<open>t\<close> as a contiguous substring.\<close>

fun py_in :: "string \<Rightarrow> string \<Rightarrow> bool" where
  "py_in k [] = (k = [])"
| "py_in k (c # cs) = (prefix k (c # cs) \<or> py_in k cs)"

text \<open>The reading of "case-insensitive substring match" used to state the claims: the
  lowercased keyword is a contiguous part of the lowercased text.\<close>

definition occurs_ci :: "string \<Rightarrow> string \<Rightarrow> bool" where
  "occurs_ci k t = (\<exists>pre post. lower t = pre @ lower k @ post)"

section \<open>Dictionary-shaped posts and comments\<close>

text \<open>The votes of a comment dictionary are loosely typed: an integer or a string.\<close>

datatype vote = VInt int | VStr string

record comment =
  c_content :: "string pyfield"
  upvotes :: "vote pyfield"
  downvotes :: "vote pyfield"

record post =
  url :: "string pyfield"
  platform :: "string pyfield"
  title :: "string pyfield"
  content :: "string pyfield"
  author :: "string pyfield"
  created_at :: "string pyfield"
  comments :: "comment list pyfield"

text \<open>\<^verbatim>\<open>d.get(k, '')\<close> for a text entry that is present: the text read by the claims.
  (\<open>PyNone\<close> has no text; the functions below say what they do with it.)\<close>

fun field_text :: "string pyfield \<Rightarrow> string" where
  "field_text (Has s) = s"
| "field_text _ = []"

section \<open>Relevance evaluator (ai\_search/relevance\_evaluator.py)\<close>

record evaluation_criteria =
  primary_keywords :: "string list"
  secondary_keywords :: "string list"
  exclude_keywords :: "string list"

text \<open>The reasons are formatted strings in the source; the model keeps which message it
  is and the keywords that are interpolated into it: the exclude message with its
  keyword, the primary and the secondary message with the joined matches (the secondary
  one joins at most the first five), and the message for no keyword at all.\<close>

datatype reason =
    ExcludeReason string
  | PrimaryReason "string list"
  | SecondaryReason "string list"
  | NoKeywordReason

record RelevanceScore =
  rs_url :: "string option"
  score :: rat
  is_relevant :: bool
  reasons :: "reason list"
  confidence :: rat

text \<open>\<^verbatim>\<open>post_data.get(k, '').lower()\<close>: a stored \<^verbatim>\<open>None\<close> has no
  method \<^verbatim>\<open>lower\<close>.\<close>

fun get_lower :: "string pyfield \<Rightarrow> error + string" where
  "get_lower Missing = Inr []"
| "get_lower PyNone = Inl AttributeError"
| "get_lower (Has s) = Inr (lower s)"

text \<open>\<^verbatim>\<open>post_data.get('url', '')\<close>, where \<open>None\<close> is Python's \<^verbatim>\<open>None\<close>.\<close>

fun get_url :: "string pyfield \<Rightarrow> string option" where
  "get_url Missing = Some []"
| "get_url PyNone = None"
| "get_url (Has s) = Some s"

text \<open>The loop over the exclude keywords returns at the first one found.\<close>

fun exclude_loop :: "string \<Rightarrow> string list \<Rightarrow> string option" where
  "exclude_loop full_text [] = None"
| "exclude_loop full_text (exclude_kw # kws) =
     (if py_in (lower exclude_kw) full_text then Some exclude_kw
      else exclude_loop full_text kws)"

text \<open>The two matching loops: each keyword found is appended to the matches and adds
  its weight to the running score.\<close>

fun match_loop ::
  "rat \<Rightarrow> string \<Rightarrow> string list \<Rightarrow> string list \<times> rat \<Rightarrow> string list \<times> rat" where
  "match_loop w full_text [] (matches, sc) = (matches, sc)"
| "match_loop w full_text (kw # kws) (matches, sc) =
     (if py_in (lower kw) full_text
      then match_loop w full_text kws (matches @ [kw], sc + w)
      else match_loop w full_text kws (matches, sc))"

definition evaluate_post_simple ::
  "evaluation_criteria \<Rightarrow> post \<Rightarrow> error + RelevanceScore" where
  "evaluate_post_simple self post_data =
     (case get_lower (title post_data) of
        Inl e \<Rightarrow> Inl e
      | Inr title_l \<Rightarrow>
     (case get_lower (content post_data) of
        Inl e \<Rightarrow> Inl e
      | Inr content_l \<Rightarrow>
     (let full_text = title_l @ '' '' @ content_l in
      case exclude_loop full_text (exclude_keywords self) of
        Some exclude_kw \<Rightarrow>
          Inr \<lparr>rs_url = get_url (url post_data), score = 0, is_relevant = False,
               reasons = [ExcludeReason exclude_kw], confidence = 9 / 10\<rparr>
      | None \<Rightarrow>
         (let (primary_matches, score1) =
                match_loop (4 / 10) full_text (primary_keywords self) ([], 0);
              reasons1 = (if primary_matches \<noteq> [] then [PrimaryReason primary_matches]
                          else []);
              (secondary_matches, score2) =
                match_loop (1 / 10) full_text (secondary_keywords self) ([], score1);
              reasons2 = (if secondary_matches \<noteq> []
                          then reasons1 @ [SecondaryReason (take 5 secondary_matches)]
                          else reasons1);
              score3 = min score2 1;
              reasons3 = (if reasons2 = [] then [NoKeywordReason] else reasons2)
          in Inr \<lparr>rs_url = get_url (url post_data), score = score3,
                  is_relevant = (score3 \<ge> 1 / 2), reasons = reasons3,
                  confidence = 7 / 10\<rparr>))))"

text \<open>A small configuration in the style of config.KEYWORDS, for concrete runs.\<close>

definition example_criteria :: evaluation_criteria where
  "example_criteria =
     \<lparr>primary_keywords = [''ChatGPT'', ''GPT'', ''AI'', ''Claude'', ''Gemini''],
      secondary_keywords = [''IT'', ''programmer''],
      exclude_keywords = [''courses for sale'']\<rparr>"

definition text_post :: "string \<Rightarrow> string \<Rightarrow> post" where
  "text_post t c =
     \<lparr>url = Has ''https://example.org/1'', platform = Has ''v2ex'', title = Has t,
      content = Has c, author = Missing, created_at = Missing, comments = Missing\<rparr>"

section \<open>Rounding\<close>

text \<open>\<^verbatim>\<open>round(x, ndigits)\<close> on the exact value: the nearest multiple of
  \<open>10\<^sup>-\<^sup>n\<close>, a tie going to the even neighbour.\<close>

definition py_round :: "rat \<Rightarrow> nat \<Rightarrow> rat" where
  "py_round x ndigits =
     (let y = x * 10 ^ ndigits; f = \<lfloor>y\<rfloor>; d = y - of_int f in
      (if d < 1 / 2 then of_int f
       else if d > 1 / 2 then of_int (f + 1)
       else if even f then of_int f else of_int (f + 1)) / 10 ^ ndigits)"

section \<open>Quality analyzer (analytics/quality\_analyzer.py)\<close>
















section \<open>Sentiment of one document (scripts/text\_analysis.py)\<close>

text \<open>\<^verbatim>\<open>SENTIMENT_WORDS\<close>: for each polarity a dictionary from language to word list.\<close>

record sentiment_words =
  sw_positive :: "string \<rightharpoonup> string list"
  sw_negative :: "string \<rightharpoonup> string list"

record sentiment =
  s_score :: rat
  s_label :: string
  s_positive_count :: int
  s_negative_count :: int

text \<open>\<^verbatim>\<open>d.get(language, [])\<close>.\<close>

definition get_words :: "(string \<rightharpoonup> string list) \<Rightarrow> string \<Rightarrow> string list" where
  "get_words d language = (case d language of None \<Rightarrow> [] | Some ws \<Rightarrow> ws)"

text \<open>\<^verbatim>\<open>sum(1 for word in words if word in text_lower)\<close>.\<close>

definition count_hits :: "string list \<Rightarrow> string \<Rightarrow> int" where
  "count_hits words text_lower = int (length (filter (\<lambda>word. py_in word text_lower) words))"

definition analyze_sentiment :: "sentiment_words \<Rightarrow> string \<Rightarrow> string \<Rightarrow> sentiment" where
  "analyze_sentiment SENTIMENT_WORDS text language =
     (let text_lower = lower text;
          positive_words = get_words (sw_positive SENTIMENT_WORDS) language;
          negative_words = get_words (sw_negative SENTIMENT_WORDS) language;
          c_positive = count_hits positive_words text_lower;
          c_negative = count_hits negative_words text_lower;
          total = c_positive + c_negative;
          (sentiment_score, sentiment_label) =
            (if total = 0 then (0, ''neutral'')
             else (let sc = of_int (c_positive - c_negative) / of_int total in
                   if sc > 2 / 10 then (sc, ''positive'')
                   else if sc < - (2 / 10) then (sc, ''negative'')
                   else (sc, ''neutral'')))
      in \<lparr>s_score = py_round sentiment_score 3, s_label = sentiment_label,
          s_positive_count = c_positive, s_negative_count = c_negative\<rparr>)"

text \<open>The hit counts by the names the specification gives them.\<close>

definition positive_hits :: "sentiment_words \<Rightarrow> string \<Rightarrow> string \<Rightarrow> int" where
  "positive_hits SW text language =
     int (length (filter (\<lambda>w. py_in w (lower text)) (get_words (sw_positive SW) language)))"

definition negative_hits :: "sentiment_words \<Rightarrow> string \<Rightarrow> string \<Rightarrow> int" where
  "negative_hits SW text language =
     int (length (filter (\<lambda>w. py_in w (lower text)) (get_words (sw_negative SW) language)))"

text \<open>The English rows of \<^verbatim>\<open>SENTIMENT_WORDS\<close>, as the source lists them. The
  Chinese rows hold text outside the 8-bit characters and are not written out; the
  theorems hold for every table.\<close>

definition SENTIMENT_WORDS_en :: sentiment_words where
  "SENTIMENT_WORDS_en =
     \<lparr>sw_positive = [''en'' \<mapsto>
        [''good'', ''great'', ''excellent'', ''amazing'', ''awesome'', ''fantastic'',
         ''wonderful'', ''helpful'', ''useful'', ''beneficial'', ''opportunity'',
         ''opportunities'', ''advantage'', ''improve'', ''better'', ''best'', ''love'',
         ''like'', ''enjoy'', ''happy'', ''excited'', ''optimistic'', ''positive'', ''hope'',
         ''hopeful'', ''promising'', ''success'', ''successful'', ''efficient'',
         ''productivity'', ''innovative'', ''creative'', ''smart'', ''intelligent'',
         ''powerful'', ''capable'', ''effective'', ''valuable'', ''progress'', ''advance'',
         ''growth'', ''assist'', ''assistance'', ''support'', ''enhance'', ''boost'',
         ''augment'', ''empower'']],
      sw_negative = [''en'' \<mapsto>
        [''bad'', ''terrible'', ''awful'', ''horrible'', ''worst'', ''hate'', ''dislike'',
         ''angry'', ''sad'', ''worried'', ''worry'', ''concern'', ''concerned'', ''fear'',
         ''afraid'', ''scary'', ''threat'', ''threaten'', ''threatening'', ''danger'',
         ''dangerous'', ''risk'', ''risky'', ''replace'', ''replacement'', ''obsolete'',
         ''useless'', ''worthless'', ''unemployed'', ''unemployment'', ''layoff'',
         ''layoffs'', ''fired'', ''lose'', ''lost'', ''losing'', ''pessimistic'',
         ''negative'', ''doom'', ''doomed'', ''fail'', ''failure'', ''difficult'', ''hard'',
         ''struggle'', ''struggling'', ''crisis'', ''problem'', ''problems'', ''issue'',
         ''issues'', ''decline'', ''decrease'', ''drop'', ''fall'', ''crash'',
         ''collapse'']]\<rparr>"

section \<open>Sentiment distribution of a corpus (analytics/text\_analyzer.py)\<close>







section \<open>The Post model (models/post.py)\<close>

record PostMetadata =
  view_count :: int
  follow_count :: int
  upvote_count :: int
  comment_count :: int

record Comment =
  cm_content :: string
  cm_author :: string
  cm_upvotes :: int
  cm_downvotes :: int

record Post =
  p_platform :: string
  p_post_type :: string
  p_url :: string
  p_title :: string
  p_content :: "string option"
  p_author :: "string option"
  p_metadata :: PostMetadata
  p_comments :: "Comment list"
  p_is_relevant :: "bool option"

text \<open>The defaults of the two models: \<^verbatim>\<open>PostMetadata()\<close> is all zero, and a Post
  built from its required fields has that metadata, no optional field, and the
  comments it is given.\<close>

definition PostMetadata_default :: PostMetadata where
  "PostMetadata_default =
     \<lparr>view_count = 0, follow_count = 0, upvote_count = 0, comment_count = 0\<rparr>"

definition new_Post :: "string \<Rightarrow> string \<Rightarrow> string \<Rightarrow> string \<Rightarrow> Comment list \<Rightarrow> Post" where
  "new_Post the_platform the_type the_url the_title the_comments =
     \<lparr>p_platform = the_platform, p_post_type = the_type, p_url = the_url,
      p_title = the_title, p_content = None, p_author = None,
      p_metadata = PostMetadata_default, p_comments = the_comments,
      p_is_relevant = None\<rparr>"

definition get_comment_count :: "Post \<Rightarrow> int" where
  "get_comment_count self = int (length (p_comments self))"

definition update_metadata :: "Post \<Rightarrow> Post" where
  "update_metadata self =
     self\<lparr>p_metadata := (p_metadata self)\<lparr>comment_count := get_comment_count self\<rparr>\<rparr>"

text \<open>The list mutation \<^verbatim>\<open>post.comments.append(c)\<close>: nothing else of the post
  changes, the model has no hook on its fields.\<close>

definition comments_append :: "Comment \<Rightarrow> Post \<Rightarrow> Post" where
  "comments_append c self = self\<lparr>p_comments := p_comments self @ [c]\<rparr>"

definition a_Comment :: Comment where
  "a_Comment = \<lparr>cm_content = ''first'', cm_author = ''someone'', cm_upvotes = 0, cm_downvotes = 0\<rparr>"

text \<open>A post with no comments whose count has been recomputed.\<close>

definition fresh_Post :: Post where
  "fresh_Post = update_metadata (new_Post ''v2ex'' ''topic'' ''https://example.org/t/1'' ''A'' [])"

section \<open>Facts about the string primitives\<close>

lemma py_in_iff_sublist: "py_in k t \<longleftrightarrow> (\<exists>pre post. t = pre @ k @ post)"
proof (induction t)
  case Nil
  then show ?case by auto
next
  case (Cons c cs)
  show ?case
  proof
    assume "py_in k (c # cs)"
    then consider "prefix k (c # cs)" | "py_in k cs" by auto
    then show "\<exists>pre post. c # cs = pre @ k @ post"
    proof cases
      case 1
      then obtain post where "c # cs = k @ post" by (auto simp: prefix_def)
      then have "c # cs = [] @ k @ post" by simp
      then show ?thesis by blast
    next
      case 2
      with Cons.IH obtain pre post where "cs = pre @ k @ post" by blast
      then have "c # cs = (c # pre) @ k @ post" by simp
      then show ?thesis by blast
    qed
  next
    assume "\<exists>pre post. c # cs = pre @ k @ post"
    then obtain pre post where eq: "c # cs = pre @ k @ post" by blast
    show "py_in k (c # cs)"
    proof (cases pre)
      case Nil
      with eq have "prefix k (c # cs)" by (simp add: prefix_def)
      then show ?thesis by simp
    next
      case (Cons a pre')
      with eq have "cs = pre' @ k @ post" by simp
      with Cons.IH have "py_in k cs" by blast
      then show ?thesis by simp
    qed
  qed
qed

lemma occurs_ci_py_in [code]: "occurs_ci k t \<longleftrightarrow> py_in (lower k) (lower t)"
  by (simp add: occurs_ci_def py_in_iff_sublist)

lemma lower_append: "lower (a @ b) = lower a @ lower b"
  by (simp add: lower_def)

lemma lower_space: "lower '' '' = '' ''"
  by (simp add: lower_def py_lower_char_def upper_chars_def lower_chars_def)

lemma get_lower_text:
  "f \<noteq> PyNone \<Longrightarrow> get_lower f = Inr (lower (field_text f))"
  by (cases f) (simp_all add: lower_def)

section \<open>Facts about the evaluator's loops\<close>

lemma exclude_loop_None:
  "exclude_loop t kws = None \<longleftrightarrow> (\<forall>k \<in> set kws. \<not> py_in (lower k) t)"
  by (induction kws) auto

lemma exclude_loop_Some:
  "exclude_loop t kws = Some k \<Longrightarrow> k \<in> set kws \<and> py_in (lower k) t"
  by (induction kws) (auto split: if_splits)




lemma evaluate_excluded:
  assumes "get_lower (title p) = Inr t" and "get_lower (content p) = Inr c"
    and "exclude_loop (t @ '' '' @ c) (exclude_keywords crit) = Some k"
  shows "evaluate_post_simple crit p =
           Inr \<lparr>rs_url = get_url (url p), score = 0, is_relevant = False,
                reasons = [ExcludeReason k], confidence = 9 / 10\<rparr>"
  using assms by (simp add: evaluate_post_simple_def)


lemma full_text_lower:
  "lower (a @ CHR '' '' # b) = lower a @ CHR '' '' # lower b"
  by (simp add: lower_def py_lower_char_def upper_chars_def lower_chars_def)

section \<open>Claims about the relevance evaluator\<close>

text \<open>
  Claim C2 (exclude dominance). For every keyword configuration and every post whose
  title and content are text (or absent): if some exclude keyword occurs, as a
  case-insensitive substring, in the title and content joined by the space the code puts
  between them, then the evaluator returns score 0, is\_relevant false and confidence 0.9,
  whatever the primary and secondary keywords are, and its only reason is the exclude
  message for an exclude keyword that occurs in the text.
\<close>

theorem C2_exclude_dominance:
  assumes "title p \<noteq> PyNone" and "content p \<noteq> PyNone"
    and "kw \<in> set (exclude_keywords crit)"
    and "occurs_ci kw (field_text (title p) @ '' '' @ field_text (content p))"
  shows "\<exists>r k. evaluate_post_simple crit p = Inr r
           \<and> score r = 0 \<and> is_relevant r = False \<and> confidence r = 9 / 10
           \<and> reasons r = [ExcludeReason k]
           \<and> k \<in> set (exclude_keywords crit)
           \<and> occurs_ci k (field_text (title p) @ '' '' @ field_text (content p))"
proof -
  let ?t = "lower (field_text (title p))" and ?c = "lower (field_text (content p))"
  have t: "get_lower (title p) = Inr ?t" and c: "get_lower (content p) = Inr ?c"
    using assms(1,2) by (simp_all add: get_lower_text)
  have hit: "py_in (lower kw) (?t @ '' '' @ ?c)"
    using assms(4) by (simp add: occurs_ci_py_in full_text_lower)
  with assms(3) have "exclude_loop (?t @ '' '' @ ?c) (exclude_keywords crit) \<noteq> None"
    by (auto simp: exclude_loop_None)
  then obtain k where k: "exclude_loop (?t @ '' '' @ ?c) (exclude_keywords crit) = Some k"
    by blast
  from exclude_loop_Some[OF k]
  have "k \<in> set (exclude_keywords crit)"
    and "occurs_ci k (field_text (title p) @ '' '' @ field_text (content p))"
    by (simp_all add: occurs_ci_py_in full_text_lower)
  with evaluate_excluded[OF t c k] show ?thesis by simp
qed

text \<open>Spec scenario 4: an exclude keyword together with three primary matches.\<close>

theorem C2_exclude_dominance_witness:
  "\<exists>r k. evaluate_post_simple example_criteria
            (text_post ''ChatGPT and Claude'' ''AI courses for sale'') = Inr r
     \<and> score r = 0 \<and> is_relevant r = False \<and> confidence r = 9 / 10
     \<and> reasons r = [ExcludeReason k]
     \<and> k \<in> set (exclude_keywords example_criteria)
     \<and> occurs_ci k (field_text (title (text_post ''ChatGPT and Claude'' ''AI courses for sale''))
          @ '' '' @ field_text (content (text_post ''ChatGPT and Claude'' ''AI courses for sale'')))"
proof -
  let ?p = "text_post ''ChatGPT and Claude'' ''AI courses for sale''"
  have "title ?p \<noteq> PyNone" and "content ?p \<noteq> PyNone"
    by (simp_all add: text_post_def)
  moreover have "''courses for sale'' \<in> set (exclude_keywords example_criteria)"
    by (simp add: example_criteria_def)
  moreover have "occurs_ci ''courses for sale''
                   (field_text (title ?p) @ '' '' @ field_text (content ?p))"
    by code_simp
  ultimately show ?thesis
    by (rule C2_exclude_dominance)
qed




section \<open>Facts about rounding\<close>

lemma py_round_bounds:
  assumes "of_int a \<le> x" and "x \<le> of_int b"
  shows "of_int a \<le> py_round x n \<and> py_round x n \<le> of_int b"
proof -
  define y where "y = x * 10 ^ n"
  define f where "f = \<lfloor>y\<rfloor>"
  define r where "r = (if y - of_int f < 1 / 2 then f
       else if y - of_int f > 1 / 2 then f + 1
       else if even f then f else f + 1)"
  have pr: "py_round x n = of_int r / 10 ^ n"
    by (simp add: py_round_def Let_def y_def f_def r_def)
  have pos: "(0::rat) < 10 ^ n" by simp
  have ya: "of_int (a * 10 ^ n) \<le> y"
    using assms(1) by (simp add: y_def)
  have yb: "y \<le> of_int (b * 10 ^ n)"
    using assms(2) by (simp add: y_def)
  have fa: "a * 10 ^ n \<le> f"
    using ya unfolding f_def by (simp only: le_floor_iff)
  have "\<lfloor>y\<rfloor> \<le> \<lfloor>of_int (b * 10 ^ n) :: rat\<rfloor>"
    using yb by (rule floor_mono)
  then have fb: "f \<le> b * 10 ^ n"
    unfolding f_def by (simp only: floor_of_int)
  have up: "f + 1 \<le> b * 10 ^ n" if "y - of_int f \<ge> 1 / 2"
  proof -
    from that have "of_int f < y" by simp
    then have "(of_int f :: rat) < of_int (b * 10 ^ n)" using yb by (rule less_le_trans)
    then have "f < b * 10 ^ n" by (simp only: of_int_less_iff)
    then show ?thesis by simp
  qed
  have ra: "a * 10 ^ n \<le> r" using fa by (simp add: r_def)
  have rb: "r \<le> b * 10 ^ n" using fb up by (auto simp: r_def)
  have "(of_int a :: rat) = of_int (a * 10 ^ n) / 10 ^ n" by simp
  also have "\<dots> \<le> of_int r / 10 ^ n"
    using ra pos by (simp only: divide_le_cancel of_int_le_iff) simp
  finally have 1: "of_int a \<le> py_round x n" by (simp only: pr)
  have "of_int r / (10 ^ n :: rat) \<le> of_int (b * 10 ^ n) / 10 ^ n"
    using rb pos by (simp only: divide_le_cancel of_int_le_iff) simp
  also have "\<dots> = of_int b" by simp
  finally have 2: "py_round x n \<le> of_int b" by (simp only: pr)
  from 1 2 show ?thesis ..
qed

lemma py_round_of_int: "py_round (of_int k) n = of_int k"
proof -
  have y: "(of_int k :: rat) * 10 ^ n = of_int (k * 10 ^ n)" by simp
  have "py_round (of_int k) n = (of_int (k * 10 ^ n) :: rat) / 10 ^ n"
    unfolding py_round_def Let_def y by (simp only: floor_of_int) simp
  also have "\<dots> = of_int k" by simp
  finally show ?thesis .
qed

section \<open>Claims about the quality score\<close>










section \<open>Claims about the sentiment of a document\<close>

lemma sentiment_label_cases:
  assumes "r = analyze_sentiment SW text language"
    and "p = positive_hits SW text language" and "n = negative_hits SW text language"
  shows "s_positive_count r = p" and "s_negative_count r = n"
    and "p + n = 0 \<Longrightarrow> s_score r = py_round 0 3 \<and> s_label r = ''neutral''"
    and "p + n \<noteq> 0 \<Longrightarrow> s_score r = py_round (of_int (p - n) / of_int (p + n)) 3"
    and "p + n \<noteq> 0 \<Longrightarrow>
           s_label r = (if of_int (p - n) / of_int (p + n) > (2 / 10 :: rat) then ''positive''
                        else if of_int (p - n) / of_int (p + n) < - (2 / 10 :: rat)
                        then ''negative'' else ''neutral'')"
  using assms
  by (simp_all add: analyze_sentiment_def positive_hits_def negative_hits_def count_hits_def
      Let_def del: of_int_diff of_int_add)

lemma hits_nonneg: "0 \<le> positive_hits SW text language" "0 \<le> negative_hits SW text language"
  by (simp_all add: positive_hits_def negative_hits_def)

lemma quotient_bounds:
  fixes p n :: int
  assumes "0 \<le> p" and "0 \<le> n" and "p + n \<noteq> 0"
  shows "of_int (- 1) \<le> (of_int (p - n) / of_int (p + n) :: rat)"
    and "(of_int (p - n) / of_int (p + n) :: rat) \<le> of_int 1"
proof -
  from assms have pos: "(0 :: rat) < of_int (p + n)" by simp
  have "- (of_int (p + n) :: rat) \<le> of_int (p - n)" using assms(1) by simp
  then show "of_int (- 1) \<le> (of_int (p - n) / of_int (p + n) :: rat)"
    using pos by (simp add: pos_le_divide_eq del: of_int_add of_int_diff)
  have "(of_int (p - n) :: rat) \<le> of_int (p + n)" using assms(2) by simp
  then show "(of_int (p - n) / of_int (p + n) :: rat) \<le> of_int 1"
    using pos by (simp add: pos_divide_le_eq del: of_int_add of_int_diff)
qed

text \<open>
  Claim C7, as amended. For every lexicon table, text and language, with \<open>p\<close> and \<open>n\<close> the
  numbers of positive and negative lexicon words of that language that occur in the
  lowercased text, and \<open>q = (p - n) / (p + n)\<close>: the result reports \<open>p\<close> and \<open>n\<close>; when both
  are zero the score is 0 and the label neutral; otherwise the score returned is \<open>q\<close>
  rounded to three decimals, and the label is positive iff \<open>q > 0.2\<close>, negative iff
  \<open>q < -0.2\<close>, neutral otherwise (the label is decided on the unrounded \<open>q\<close>). The score
  lies in [-1, 1]. The result is a function of table, text and language alone.
\<close>

theorem C7_sentiment_rounded:
  assumes "r = analyze_sentiment SW text language"
    and "p = positive_hits SW text language" and "n = negative_hits SW text language"
    and "q = (of_int (p - n) / of_int (p + n) :: rat)"
  shows "s_positive_count r = p \<and> s_negative_count r = n
     \<and> (p + n = 0 \<longrightarrow> s_score r = 0 \<and> s_label r = ''neutral'')
     \<and> (p + n \<noteq> 0 \<longrightarrow>
          s_score r = py_round q 3
          \<and> (s_label r = ''positive'' \<longleftrightarrow> q > 2 / 10)
          \<and> (s_label r = ''negative'' \<longleftrightarrow> q < - (2 / 10))
          \<and> (s_label r = ''neutral'' \<longleftrightarrow> - (2 / 10) \<le> q \<and> q \<le> 2 / 10))
     \<and> - 1 \<le> s_score r \<and> s_score r \<le> 1"
proof -
  note c = sentiment_label_cases[OF assms(1-3)]
  have zero: "py_round 0 3 = 0" using py_round_of_int[of 0 3] by simp
  have counts: "s_positive_count r = p \<and> s_negative_count r = n" using c(1,2) by simp
  have empty: "p + n = 0 \<longrightarrow> s_score r = 0 \<and> s_label r = ''neutral''"
    using c(3) zero by simp
  have some: "p + n \<noteq> 0 \<longrightarrow>
          s_score r = py_round q 3
          \<and> (s_label r = ''positive'' \<longleftrightarrow> q > 2 / 10)
          \<and> (s_label r = ''negative'' \<longleftrightarrow> q < - (2 / 10))
          \<and> (s_label r = ''neutral'' \<longleftrightarrow> - (2 / 10) \<le> q \<and> q \<le> 2 / 10)"
  proof
    assume nz: "p + n \<noteq> 0"
    have lab: "s_label r = (if q > 2 / 10 then ''positive''
                            else if q < - (2 / 10) then ''negative'' else ''neutral'')"
      using c(5)[OF nz] by (simp only: assms(4))
    have sc: "s_score r = py_round q 3" using c(4)[OF nz] by (simp only: assms(4))
    show "s_score r = py_round q 3
          \<and> (s_label r = ''positive'' \<longleftrightarrow> q > 2 / 10)
          \<and> (s_label r = ''negative'' \<longleftrightarrow> q < - (2 / 10))
          \<and> (s_label r = ''neutral'' \<longleftrightarrow> - (2 / 10) \<le> q \<and> q \<le> 2 / 10)"
      unfolding lab sc by auto
  qed
  have bounds: "- 1 \<le> s_score r \<and> s_score r \<le> 1"
  proof (cases "p + n = 0")
    case True
    with empty show ?thesis by simp
  next
    case False
    have "0 \<le> p" "0 \<le> n" using hits_nonneg by (simp_all add: assms(2,3))
    from quotient_bounds[OF this False]
    have "of_int (- 1) \<le> q" "q \<le> of_int 1" by (simp_all only: assms(4))
    from py_round_bounds[OF this, of 3] some False show ?thesis by simp
  qed
  from counts empty some bounds show ?thesis by blast
qed

theorem C7_sentiment_rounded_witness:
  "s_positive_count (analyze_sentiment SENTIMENT_WORDS_en ''Good, great; but BAD'' ''en'') = 2
   \<and> s_negative_count (analyze_sentiment SENTIMENT_WORDS_en ''Good, great; but BAD'' ''en'') = 1
   \<and> s_score (analyze_sentiment SENTIMENT_WORDS_en ''Good, great; but BAD'' ''en'')
       = py_round (1 / 3) 3
   \<and> s_score (analyze_sentiment SENTIMENT_WORDS_en ''Good, great; but BAD'' ''en'') = 333 / 1000
   \<and> s_label (analyze_sentiment SENTIMENT_WORDS_en ''Good, great; but BAD'' ''en'') = ''positive''"
proof -
  let ?r = "analyze_sentiment SENTIMENT_WORDS_en ''Good, great; but BAD'' ''en''"
  have p: "positive_hits SENTIMENT_WORDS_en ''Good, great; but BAD'' ''en'' = 2"
    by code_simp
  have n: "negative_hits SENTIMENT_WORDS_en ''Good, great; but BAD'' ''en'' = 1"
    by code_simp
  have rd: "py_round (1 / 3) 3 = 333 / 1000" by code_simp
  from C7_sentiment_rounded[of ?r SENTIMENT_WORDS_en "''Good, great; but BAD''" "''en''" 2 1 "1 / 3"]
  show ?thesis using p n rd by simp
qed

text \<open>The claim as stated, with the score equal to the quotient itself, fails for two
  positive hits and one negative hit: the quotient is 1/3, the score returned is 0.333.\<close>

theorem C7_unrounded_counterexample:
  "positive_hits SENTIMENT_WORDS_en ''good great bad'' ''en'' = 2
   \<and> negative_hits SENTIMENT_WORDS_en ''good great bad'' ''en'' = 1
   \<and> s_score (analyze_sentiment SENTIMENT_WORDS_en ''good great bad'' ''en'') = 333 / 1000
   \<and> s_score (analyze_sentiment SENTIMENT_WORDS_en ''good great bad'' ''en'')
        \<noteq> (2 - 1) / (2 + 1)"
proof -
  have "positive_hits SENTIMENT_WORDS_en ''good great bad'' ''en'' = 2" by code_simp
  moreover have "negative_hits SENTIMENT_WORDS_en ''good great bad'' ''en'' = 1" by code_simp
  moreover have "s_score (analyze_sentiment SENTIMENT_WORDS_en ''good great bad'' ''en'')
                   = 333 / 1000" by code_simp
  ultimately show ?thesis by simp
qed

section \<open>Claims about the sentiment distribution\<close>






section \<open>Claims about the Post model\<close>

text \<open>
  Claim C9, as amended. For every Post, in the state that update\_metadata returns
  metadata.comment\_count equals len(comments); update\_metadata is a function of the post
  (deterministic), applying it twice gives the same state as applying it once, and it
  changes neither the comments nor the other counters. (A mutation of comments alone does
  not recompute the count.)
\<close>

theorem C9_update_metadata:
  "comment_count (p_metadata (update_metadata p)) = int (length (p_comments (update_metadata p)))
   \<and> update_metadata (update_metadata p) = update_metadata p
   \<and> p_comments (update_metadata p) = p_comments p
   \<and> view_count (p_metadata (update_metadata p)) = view_count (p_metadata p)
   \<and> follow_count (p_metadata (update_metadata p)) = follow_count (p_metadata p)
   \<and> upvote_count (p_metadata (update_metadata p)) = upvote_count (p_metadata p)"
  by (simp add: update_metadata_def get_comment_count_def)

text \<open>The claim as stated, with the count equal to len(comments) after any mutation of
  comments, fails: appending a comment to a post whose count is right leaves the count
  at 0 with one comment stored.\<close>

theorem C9_stale_count_counterexample:
  "comment_count (p_metadata fresh_Post) = int (length (p_comments fresh_Post))
   \<and> comment_count (p_metadata (comments_append a_Comment fresh_Post)) = 0
   \<and> int (length (p_comments (comments_append a_Comment fresh_Post))) = 1"
  by (simp add: fresh_Post_def new_Post_def update_metadata_def get_comment_count_def
      comments_append_def PostMetadata_default_def)

end
